theory Spec2Isabelle
  imports Main
begin

section \<open>Scene management client: data model\<close>

text \<open>
  The development embeds the \<^verbatim>\<open>SceneManager\<close> class of
  \<^verbatim>\<open>src/web/static/js/ui-interactions.js\<close> (the later of the two copies in the
  file, the one with AI scene generation and \<^verbatim>\<open>updateExportButtonStates\<close>).

  A scene as the server sends it. \<^verbatim>\<open>statistics\<close> and an object's \<^verbatim>\<open>size\<close>
  are only ever interpolated into markup, behind \<^verbatim>\<open>?.\<close> or as they are, and are left
  out. The arrays \<^verbatim>\<open>objects\<close> and \<^verbatim>\<open>relationships\<close> are dereferenced
  (\<^verbatim>\<open>scene.objects.map\<close>, \<^verbatim>\<open>scene.objects.find\<close>,
  \<^verbatim>\<open>scene.relationships.length\<close>): \<^verbatim>\<open>None\<close> is a body without the array, on
  which that code throws. Of \<^verbatim>\<open>relationships\<close> only the length is read.
\<close>

record scene_object =
  obj_id :: string
  obj_name :: string
  object_type :: string

record scene =
  scene_id :: string
  scene_name :: string
  description :: string
  object_count :: nat
  objects :: "scene_object list option"
  relationships :: "nat option"

text \<open>The \<^verbatim>\<open>type\<close> argument of \<^verbatim>\<open>showNotification\<close>.\<close>

datatype notification_type = ErrorType | SuccessType | InfoType

text \<open>
  The object \<^verbatim>\<open>exportData\<close> that \<^verbatim>\<open>executeExport\<close> builds and sends as the
  request body. \<^verbatim>\<open>None\<close> is a property that is absent or \<^verbatim>\<open>undefined\<close>.
\<close>

record export_data =
  export_type :: string
  format :: string
  filename :: "string option"
  object_id :: "string option"
  object_ids :: "string list option"
  combined_file :: "bool option"

text \<open>The \<^verbatim>\<open>fetch\<close> calls of the class, by endpoint.\<close>

datatype request =
    GET_scenes
  | POST_scenes string "string option"
  | GET_scene string
  | POST_preview string
  | POST_export string export_data
  | POST_validate string bool

text \<open>
  What an awaited \<^verbatim>\<open>fetch\<close> followed by \<^verbatim>\<open>response.json()\<close> settles to: either
  one of the two promises rejects, or a JSON body arrives. \<^verbatim>\<open>ok\<close> is
  \<^verbatim>\<open>response.ok\<close>; the other fields are those of the body that the class reads.
\<close>

record response_data =
  ok :: bool
  success :: bool
  error :: "string option"
  scene :: "scene option"
  preview_url :: "string option"

datatype reply = Rejected | Resolved response_data

text \<open>
  The part of the page that the methods read: the value of a form control, \<^verbatim>\<open>None\<close>
  when \<^verbatim>\<open>document.getElementById\<close> finds no such element, and the presence of the
  elements whose absence makes a method skip work.
\<close>

record dom =
  scene_name_input :: "string option"
  scene_description_input :: "string option"
  has_scene_select :: bool
  has_scene_display :: bool
  has_scene_preview_container :: bool
  export_format_input :: "string option"
  export_filename_input :: "string option"
  individual_object_select :: "string option"
  combined_file_checked :: "bool option"

text \<open>
  The state of a \<^verbatim>\<open>SceneManager\<close>: its two fields, and the traces of what it did to
  the outside world. \<^verbatim>\<open>selectedObjects\<close> is a JavaScript \<^verbatim>\<open>Set\<close>, which
  iterates in insertion order: a list without duplicates. \<^verbatim>\<open>notifications\<close> logs
  the calls of \<^verbatim>\<open>showNotification\<close>, \<^verbatim>\<open>network\<close> the calls of
  \<^verbatim>\<open>fetch\<close>, \<^verbatim>\<open>previews\<close> the image URLs written by
  \<^verbatim>\<open>displayScenePreview\<close>; \<^verbatim>\<open>modal\<close> is the title of the open
  \<^verbatim>\<open>#scene-modal\<close>, \<^verbatim>\<open>loading\<close> the message of the
  \<^verbatim>\<open>#loading-overlay\<close>. Writes to the page that nothing reads back (button
  labels and disabled flags, the markup of \<^verbatim>\<open>#scene-display\<close>, the value of the
  dropdown) are left out.
\<close>

record session =
  currentScene :: "scene option"
  selectedObjects :: "string list"
  notifications :: "(string \<times> notification_type) list"
  network :: "request list"
  modal :: "string option"
  loading :: "string option"
  previews :: "string list"

text \<open>The result of running a block of code that may throw.\<close>

datatype 'a outcome = Returned 'a | Thrown

section \<open>JavaScript helpers\<close>

text \<open>\<^verbatim>\<open>a || b\<close> on a string that may be undefined: the empty string is falsy too.\<close>

definition js_or :: "string option \<Rightarrow> string \<Rightarrow> string" where
  "js_or a b = (case a of None \<Rightarrow> b | Some s \<Rightarrow> if s = [] then b else s)"

text \<open>Truthiness of a string that may be \<^verbatim>\<open>null\<close> or \<^verbatim>\<open>undefined\<close>.\<close>

definition truthy :: "string option \<Rightarrow> bool" where
  "truthy a = (case a of None \<Rightarrow> False | Some s \<Rightarrow> s \<noteq> [])"

text \<open>
  \<^verbatim>\<open>String.prototype.trim\<close>: white space and line terminators are removed at both
  ends. Of the characters it strips, those below U+0100 are tab, line feed, vertical tab,
  form feed, carriage return, space and the no-break space.
\<close>

definition is_space :: "char \<Rightarrow> bool" where
  "is_space c = (c = CHR 0x09 \<or> c = CHR 0x0A \<or> c = CHR 0x0B \<or> c = CHR 0x0C
                 \<or> c = CHR 0x0D \<or> c = CHR 0x20 \<or> c = CHR 0xA0)"

definition trim :: "string \<Rightarrow> string" where
  "trim s = rev (dropWhile is_space (rev (dropWhile is_space s)))"

text \<open>\<^verbatim>\<open>Set.prototype.add\<close>, \<^verbatim>\<open>delete\<close> and \<^verbatim>\<open>clear\<close> on the insertion-ordered list.\<close>

definition set_add :: "string \<Rightarrow> string list \<Rightarrow> string list" where
  "set_add x xs = (if x \<in> set xs then xs else xs @ [x])"

definition set_delete :: "string \<Rightarrow> string list \<Rightarrow> string list" where
  "set_delete x xs = removeAll x xs"

section \<open>Notifications, modal, overlay, network\<close>

definition showNotification :: "string \<Rightarrow> notification_type \<Rightarrow> session \<Rightarrow> session" where
  "showNotification message ty st = st\<lparr>notifications := notifications st @ [(message, ty)]\<rparr>"

definition showError :: "string \<Rightarrow> session \<Rightarrow> session" where
  "showError message st = showNotification message ErrorType st"

definition showSuccess :: "string \<Rightarrow> session \<Rightarrow> session" where
  "showSuccess message st = showNotification message SuccessType st"

definition closeModal :: "session \<Rightarrow> session" where
  "closeModal st = st\<lparr>modal := None\<rparr>"

text \<open>\<^verbatim>\<open>showModal\<close> removes an open modal, then inserts the new one.\<close>

definition showModal :: "string \<Rightarrow> session \<Rightarrow> session" where
  "showModal title st = (closeModal st)\<lparr>modal := Some title\<rparr>"

definition hideLoading :: "session \<Rightarrow> session" where
  "hideLoading st = st\<lparr>loading := None\<rparr>"

definition showLoading :: "string \<Rightarrow> session \<Rightarrow> session" where
  "showLoading message st = (hideLoading st)\<lparr>loading := Some message\<rparr>"

text \<open>Issuing a request: \<^verbatim>\<open>fetch\<close> is called, the caller suspends at its \<^verbatim>\<open>await\<close>.\<close>

definition fetch :: "request \<Rightarrow> session \<Rightarrow> session" where
  "fetch req st = st\<lparr>network := network st @ [req]\<rparr>"

text \<open>
  The constructor's two assignments: \<^verbatim>\<open>currentScene = null\<close>,
  \<^verbatim>\<open>selectedObjects = new Set()\<close>. The requests that \<^verbatim>\<open>init()\<close> sends
  next (the health check and the list of scenes) are not part of it: they would only
  stand in front of every trace below.
\<close>

definition new_session :: session where
  "new_session = \<lparr>currentScene = None, selectedObjects = [], notifications = [],
     network = [], modal = None, loading = None, previews = []\<rparr>"

section \<open>The methods\<close>

text \<open>
  An \<^verbatim>\<open>async\<close> method runs until its first \<^verbatim>\<open>await\<close>, and its continuation runs
  when the awaited request settles; other handlers may run in between. Each such method
  is therefore two functions: \<^verbatim>\<open>m\<close>, the code up to the \<^verbatim>\<open>await\<close> (or the whole
  method when it returns before), and \<^verbatim>\<open>m_resume\<close>, the code after it, given the
  \<^verbatim>\<open>reply\<close>. The two awaits of a method (\<^verbatim>\<open>fetch\<close>, then
  \<^verbatim>\<open>response.json()\<close>) are one step: nothing of the session is read or written
  between them.
\<close>

text \<open>\<^verbatim>\<open>loadScenesList\<close>: lines 1707-1721.\<close>

definition loadScenesList :: "session \<Rightarrow> session" where
  "loadScenesList st = fetch GET_scenes st"

definition loadScenesList_resume :: "reply \<Rightarrow> session \<Rightarrow> session" where
  "loadScenesList_resume r st =
     (case r of
        Rejected \<Rightarrow> showError ''Failed to load scenes list'' st
      | Resolved data \<Rightarrow>
          if success data then st else showError ''Failed to load scenes list'' st)"

text \<open>
  \<^verbatim>\<open>createScene(name, description)\<close>: lines 1739-1764. The method starts with the
  \<^verbatim>\<open>fetch\<close>; it checks nothing about \<^verbatim>\<open>name\<close>.
\<close>

definition createScene :: "string \<Rightarrow> string option \<Rightarrow> session \<Rightarrow> session" where
  "createScene name descr st = fetch (POST_scenes name descr) st"

text \<open>
  The rest of its \<^verbatim>\<open>try\<close> block. A rejected promise throws at the \<^verbatim>\<open>await\<close>;
  \<^verbatim>\<open>data.scene.scene_id\<close> throws when the body has no \<^verbatim>\<open>scene\<close>, after the
  success notification and the refresh of the list.
\<close>

definition createScene_try :: "string \<Rightarrow> reply \<Rightarrow> session \<Rightarrow> string option outcome \<times> session" where
  "createScene_try name r st =
     (case r of
        Rejected \<Rightarrow> (Thrown, st)
      | Resolved data \<Rightarrow>
          if success data then
            (let st1 = loadScenesList
                   (showSuccess (''Scene '' @ [CHR 0x22] @ name @ [CHR 0x22] @ '' created successfully!'') st)
             in case scene data of
                  None \<Rightarrow> (Thrown, st1)
                | Some sc \<Rightarrow> (Returned (Some (scene_id sc)), st1))
          else (Returned None, showError (js_or (error data) ''Failed to create scene'') st))"

text \<open>The \<^verbatim>\<open>catch\<close> clause: report, return \<^verbatim>\<open>null\<close>.\<close>

definition createScene_resume :: "string \<Rightarrow> reply \<Rightarrow> session \<Rightarrow> string option outcome \<times> session" where
  "createScene_resume name r st =
     (case createScene_try name r st of
        (Thrown, st1) \<Rightarrow> (Returned None, showError ''Failed to create scene'' st1)
      | (Returned v, st1) \<Rightarrow> (Returned v, st1))"

text \<open>
  \<^verbatim>\<open>loadScene(sceneId)\<close>: lines 1788-1810. The id comes from the dropdown's value or
  from \<^verbatim>\<open>createScene\<close>: a string, falsy when empty. The unload branch sets
  \<^verbatim>\<open>currentScene\<close>, redraws and returns; \<^verbatim>\<open>updateSceneDisplay(null)\<close>
  cannot throw.
\<close>

definition loadScene :: "string \<Rightarrow> session \<Rightarrow> session" where
  "loadScene sceneId st =
     (if sceneId = [] then st\<lparr>currentScene := None\<rparr>
      else fetch (GET_scene sceneId) st)"

text \<open>
  \<^verbatim>\<open>updateSceneDisplay(scene)\<close>: lines 1812-1894. It writes to the page only, so
  all that is kept of it is whether it returns. Without the \<^verbatim>\<open>#scene-display\<close>
  element, or without a scene, it returns early. Otherwise the template reads
  \<^verbatim>\<open>scene.relationships.length\<close> and then \<^verbatim>\<open>scene.objects.map\<close>, and throws
  on a scene that lacks either array.
\<close>

definition updateSceneDisplay :: "dom \<Rightarrow> scene option \<Rightarrow> unit outcome" where
  "updateSceneDisplay d s =
     (if \<not> has_scene_display d then Returned ()
      else case s of
             None \<Rightarrow> Returned ()
           | Some sc \<Rightarrow>
               (case relationships sc of
                  None \<Rightarrow> Thrown
                | Some n \<Rightarrow> (case objects sc of None \<Rightarrow> Thrown | Some os \<Rightarrow> Returned ())))"

text \<open>
  The \<^verbatim>\<open>try\<close> block of \<^verbatim>\<open>loadScene\<close> after its \<^verbatim>\<open>await\<close>. A rejected
  promise throws. On a successful body the three statements run in this order:
  \<^verbatim>\<open>currentScene\<close> is assigned, the display is redrawn,
  \<^verbatim>\<open>selectedObjects.clear()\<close> is called; when the redraw throws, the assignment
  has happened and the clear has not. \<^verbatim>\<open>sceneId\<close> is the argument of the call
  that issued the request, still in scope; the code after the \<^verbatim>\<open>await\<close> does not
  read it.
\<close>

definition loadScene_try :: "dom \<Rightarrow> string \<Rightarrow> reply \<Rightarrow> session \<Rightarrow> unit outcome \<times> session" where
  "loadScene_try d sceneId r st =
     (case r of
        Rejected \<Rightarrow> (Thrown, st)
      | Resolved data \<Rightarrow>
          if success data then
            (let st1 = st\<lparr>currentScene := scene data\<rparr>
             in case updateSceneDisplay d (scene data) of
                  Thrown \<Rightarrow> (Thrown, st1)
                | Returned u \<Rightarrow> (Returned (), st1\<lparr>selectedObjects := []\<rparr>))
          else (Returned (), showError (js_or (error data) ''Failed to load scene'') st))"

text \<open>The \<^verbatim>\<open>catch\<close> clause reports \<^verbatim>\<open>Failed to load scene\<close>.\<close>

definition loadScene_resume :: "dom \<Rightarrow> string \<Rightarrow> reply \<Rightarrow> session \<Rightarrow> session" where
  "loadScene_resume d sceneId r st =
     (case loadScene_try d sceneId r st of
        (Thrown, st1) \<Rightarrow> showError ''Failed to load scene'' st1
      | (Returned u, st1) \<Rightarrow> st1)"

text \<open>\<^verbatim>\<open>toggleObjectSelection(objectId, selected)\<close>: lines 1906-1927.\<close>

definition toggleObjectSelection :: "string \<Rightarrow> bool \<Rightarrow> session \<Rightarrow> session" where
  "toggleObjectSelection objectId selected st =
     (if selected then st\<lparr>selectedObjects := set_add objectId (selectedObjects st)\<rparr>
      else st\<lparr>selectedObjects := set_delete objectId (selectedObjects st)\<rparr>)"

text \<open>A sequence of toggle calls, first call first.\<close>

definition toggles :: "(string \<times> bool) list \<Rightarrow> session \<Rightarrow> session" where
  "toggles calls st = foldl (\<lambda>s c. toggleObjectSelection (fst c) (snd c) s) st calls"

text \<open>The \<^verbatim>\<open>selected\<close> flag of the last call for an id, if there was one.\<close>

definition last_toggle :: "(string \<times> bool) list \<Rightarrow> string \<Rightarrow> bool option" where
  "last_toggle calls objectId = map_of (rev calls) objectId"

text \<open>
  \<^verbatim>\<open>displayScenePreview(previewUrl)\<close>: lines 1967-1984. The URL is interpolated
  into the \<^verbatim>\<open>src\<close> of the image as it is; an undefined one prints as
  \<^verbatim>\<open>undefined\<close>.
\<close>

definition displayScenePreview :: "dom \<Rightarrow> string option \<Rightarrow> session \<Rightarrow> session" where
  "displayScenePreview d previewUrl st =
     (if \<not> has_scene_preview_container d then st
      else st\<lparr>previews := previews st
             @ [case previewUrl of None \<Rightarrow> ''undefined'' | Some u \<Rightarrow> u]\<rparr>)"

text \<open>\<^verbatim>\<open>generateScenePreview()\<close>: lines 1929-1965.\<close>

definition generateScenePreview :: "session \<Rightarrow> session" where
  "generateScenePreview st =
     (case currentScene st of
        None \<Rightarrow> showError ''No scene selected'' st
      | Some sc \<Rightarrow> fetch (POST_preview (scene_id sc)) st)"

definition generateScenePreview_resume :: "dom \<Rightarrow> reply \<Rightarrow> session \<Rightarrow> session" where
  "generateScenePreview_resume d r st =
     (case r of
        Rejected \<Rightarrow> showError ''Failed to generate scene preview'' st
      | Resolved data \<Rightarrow>
          if success data then
            showSuccess ''Scene preview generated successfully!''
              (displayScenePreview d (preview_url data) st)
          else showError (js_or (error data) ''Failed to generate scene preview'') st)"

text \<open>
  \<^verbatim>\<open>showExportModal(exportType)\<close>: lines 1986-2007. The content of the individual
  dialog maps over \<^verbatim>\<open>currentScene.objects\<close>, that of the selective dialog
  searches it once per selected id (lines 2036-2040, 2088): on a scene without the
  array they throw. Nothing catches that and nothing was written before: the session is
  as it was.
\<close>

definition showExportModal :: "string \<Rightarrow> session \<Rightarrow> session" where
  "showExportModal exportType st =
     (case currentScene st of
        None \<Rightarrow> showError ''No scene selected'' st
      | Some sc \<Rightarrow>
          if exportType = ''individual'' then
            (case objects sc of None \<Rightarrow> st | Some os \<Rightarrow> showModal ''Export Scene'' st)
          else if exportType = ''selective'' then
            (if length (selectedObjects st) = 0
             then showError ''No objects selected for selective export'' st
             else (case objects sc of None \<Rightarrow> st | Some os \<Rightarrow> showModal ''Export Scene'' st))
          else showModal ''Export Scene'' st)"

text \<open>
  \<^verbatim>\<open>executeExport(exportType)\<close>: lines 2116-2163, up to its \<^verbatim>\<open>await\<close>. Inside the
  \<^verbatim>\<open>try\<close>, the URL \<^verbatim>\<open>/api/scene/${this.currentScene.scene_id}/export\<close> is
  evaluated before \<^verbatim>\<open>fetch\<close> is called: with no current scene that throws, the
  \<^verbatim>\<open>catch\<close> reports and the \<^verbatim>\<open>finally\<close> hides the overlay.
\<close>

definition executeExport :: "dom \<Rightarrow> string \<Rightarrow> session \<Rightarrow> session" where
  "executeExport d exportType st =
     (let fmt = js_or (export_format_input d) ''obj'';
          fname = js_or (export_filename_input d) '''';
          exportData = \<lparr>export_type = exportType, format = fmt,
             filename = (if fname = [] then None else Some fname),
             object_id = None, object_ids = None, combined_file = None\<rparr>
      in if exportType = ''individual'' \<and> \<not> truthy (individual_object_select d)
         then showError ''Please select an object to export'' st
         else
           (let exportData1 =
                  (if exportType = ''individual''
                   then exportData\<lparr>object_id := individual_object_select d\<rparr>
                   else if exportType = ''selective''
                   then exportData\<lparr>object_ids := Some (selectedObjects st),
                          combined_file := Some (combined_file_checked d \<noteq> Some False)\<rparr>
                   else exportData);
                st1 = showLoading ''Exporting...'' (closeModal st)
            in case currentScene st1 of
                 None \<Rightarrow> hideLoading (showError ''Export failed'' st1)
               | Some sc \<Rightarrow> fetch (POST_export (scene_id sc) exportData1) st1))"

text \<open>Its continuation, for a well-formed export result.\<close>

definition executeExport_resume :: "reply \<Rightarrow> session \<Rightarrow> session" where
  "executeExport_resume r st =
     (case r of
        Rejected \<Rightarrow> hideLoading (showError ''Export failed'' st)
      | Resolved data \<Rightarrow>
          if ok data \<and> success data then hideLoading (showModal ''Export Complete'' st)
          else hideLoading (showError (js_or (error data) ''Export failed'') st))"


definition validateScene_resume :: "reply \<Rightarrow> session \<Rightarrow> session" where
  "validateScene_resume r st =
     (case r of
        Rejected \<Rightarrow> hideLoading (showError ''Validation failed'' st)
      | Resolved data \<Rightarrow>
          if success data then hideLoading (showModal ''Scene Validation Results'' st)
          else hideLoading (showError (js_or (error data) ''Validation failed'') st))"



text \<open>
  \<^verbatim>\<open>submitCreateScene()\<close>: lines 2346-2366. The name and the description are the
  trimmed values of the two form controls, undefined when the control is missing.
\<close>

definition submitCreateScene :: "dom \<Rightarrow> session \<Rightarrow> session" where
  "submitCreateScene d st =
     (let name = map_option trim (scene_name_input d);
          descr = map_option trim (scene_description_input d)
      in case name of
           None \<Rightarrow> showError ''Scene name is required'' st
         | Some n \<Rightarrow>
             if n = [] then showError ''Scene name is required'' st
             else createScene n descr (closeModal st))"

text \<open>
  After \<^verbatim>\<open>await this.createScene(name, description)\<close>: the new scene is loaded when
  the id is truthy and the page has the \<^verbatim>\<open>#scene-select\<close> dropdown.
\<close>

definition submitCreateScene_resume :: "dom \<Rightarrow> string \<Rightarrow> reply \<Rightarrow> session \<Rightarrow> session" where
  "submitCreateScene_resume d name r st =
     (case createScene_resume name r st of
        (Thrown, st1) \<Rightarrow> st1
      | (Returned sceneId, st1) \<Rightarrow>
          (case sceneId of
             None \<Rightarrow> st1
           | Some i \<Rightarrow> if i \<noteq> [] \<and> has_scene_select d then loadScene i st1 else st1))"

section \<open>Outcomes of a request, and sample data\<close>

text \<open>
  A repository call fails when the \<^verbatim>\<open>fetch\<close> throws or the body carries
  \<^verbatim>\<open>success: false\<close>.
\<close>

definition failed :: "reply \<Rightarrow> bool" where
  "failed r = (case r of Rejected \<Rightarrow> True | Resolved data \<Rightarrow> \<not> success data)"

text \<open>
  \<^verbatim>\<open>st1\<close> differs from \<^verbatim>\<open>st\<close> by one more error notification and by nothing
  that concerns the server, the scene or the selection.
\<close>

definition local_error_only :: "session \<Rightarrow> session \<Rightarrow> bool" where
  "local_error_only st st1 =
     (network st1 = network st \<and> currentScene st1 = currentScene st
      \<and> selectedObjects st1 = selectedObjects st \<and> previews st1 = previews st
      \<and> length (notifications st1) = Suc (length (notifications st))
      \<and> butlast (notifications st1) = notifications st
      \<and> snd (last (notifications st1)) = ErrorType)"

text \<open>
  A scene with an empty list of objects, a scene body that lacks both arrays, a
  successful body carrying a scene, and two pages.
\<close>

definition empty_scene :: "string \<Rightarrow> scene" where
  "empty_scene i = \<lparr>scene_id = i, scene_name = ''Scene '' @ i, description = [],
     object_count = 0, objects = Some [], relationships = Some 0\<rparr>"

definition bare_scene :: "string \<Rightarrow> scene" where
  "bare_scene i = \<lparr>scene_id = i, scene_name = ''Scene '' @ i, description = [],
     object_count = 0, objects = None, relationships = None\<rparr>"

text \<open>The ids of the objects of a scene.\<close>

definition scene_object_ids :: "scene \<Rightarrow> string list" where
  "scene_object_ids sc = (case objects sc of None \<Rightarrow> [] | Some os \<Rightarrow> map obj_id os)"

definition cube :: "string \<Rightarrow> scene_object" where
  "cube i = \<lparr>obj_id = i, obj_name = ''Cube '' @ i, object_type = ''cube''\<rparr>"

definition desk_scene :: scene where
  "desk_scene = \<lparr>scene_id = ''s1'', scene_name = ''Desk Setup'', description = ''office'',
     object_count = 3, objects = Some [cube ''o1'', cube ''o2'', cube ''o3''],
     relationships = Some 0\<rparr>"

definition scene_reply :: "scene \<Rightarrow> reply" where
  "scene_reply sc = Resolved \<lparr>ok = True, success = True, error = None, scene = Some sc,
     preview_url = None\<rparr>"

definition error_reply :: "string \<Rightarrow> reply" where
  "error_reply msg = Resolved \<lparr>ok = True, success = False, error = Some msg, scene = None,
     preview_url = None\<rparr>"

definition bare_page :: dom where
  "bare_page = \<lparr>scene_name_input = None, scene_description_input = None,
     has_scene_select = False, has_scene_display = False,
     has_scene_preview_container = False,
     export_format_input = None, export_filename_input = None,
     individual_object_select = None, combined_file_checked = None\<rparr>"

definition scene_page :: dom where
  "scene_page = bare_page\<lparr>has_scene_select := True, has_scene_display := True,
     has_scene_preview_container := True\<rparr>"

text \<open>
  The session once the scene \<^verbatim>\<open>sc\<close> has been selected and has arrived, on the
  page with all its elements.
\<close>

definition loaded :: "scene \<Rightarrow> session" where
  "loaded sc =
     loadScene_resume scene_page (scene_id sc) (scene_reply sc) (loadScene (scene_id sc) new_session)"


section \<open>Basic facts about the helpers\<close>

lemma set_set_add: "set (set_add x xs) = insert x (set xs)"
  by (auto simp: set_add_def)

lemma set_set_delete: "set (set_delete x xs) = set xs - {x}"
  by (auto simp: set_delete_def)

lemmas ui_defs = showNotification_def showError_def showSuccess_def closeModal_def
  showModal_def hideLoading_def showLoading_def fetch_def

lemmas sample_defs = new_session_def loaded_def scene_reply_def error_reply_def
  empty_scene_def bare_scene_def desk_scene_def cube_def bare_page_def scene_page_def

lemmas load_defs = loadScene_def loadScene_resume_def loadScene_try_def updateSceneDisplay_def

lemma trim_Nil: "trim [] = []"
  by (simp add: trim_def)

lemma toggles_snoc:
  "toggles (calls @ [c]) st = toggleObjectSelection (fst c) (snd c) (toggles calls st)"
  by (simp add: toggles_def)

lemma last_toggle_snoc:
  "last_toggle (calls @ [c]) i = (if fst c = i then Some (snd c) else last_toggle calls i)"
  by (cases c) (simp add: last_toggle_def)



lemma loadScene_unload: "loadScene [] st = st\<lparr>currentScene := None\<rparr>"
  by (simp add: loadScene_def)

lemma loadScene_resume_success:
  "success data \<Longrightarrow>
   loadScene_resume d i (Resolved data) st =
     (if updateSceneDisplay d (scene data) = Thrown
      then showError ''Failed to load scene'' (st\<lparr>currentScene := scene data\<rparr>)
      else st\<lparr>currentScene := scene data, selectedObjects := []\<rparr>)"
  by (cases "updateSceneDisplay d (scene data)")
     (simp_all add: loadScene_resume_def loadScene_try_def)

lemma loadScene_success_clears_selection:
  "success data \<Longrightarrow> updateSceneDisplay d (scene data) \<noteq> Thrown \<Longrightarrow>
   selectedObjects (loadScene_resume d i (Resolved data) st) = []"
  by (simp add: loadScene_resume_success)

lemma loadScene_pending: "i \<noteq> [] \<Longrightarrow> loadScene i st = fetch (GET_scene i) st"
  by (simp add: loadScene_def)


section \<open>Stale load responses\<close>

text \<open>
  C1, as the code has it. \<^verbatim>\<open>loadScene\<close> keeps no record of the latest requested id
  and its continuation compares nothing: a successful response is applied when it
  arrives. When a load of \<^verbatim>\<open>a\<close> and then a load of \<^verbatim>\<open>b\<close> are issued, and the
  response for \<^verbatim>\<open>b\<close> (whatever it is) arrives before a successful response for
  \<^verbatim>\<open>a\<close>, the session ends with the scene of the response for \<^verbatim>\<open>a\<close>. When the
  redraw of that scene returns, the selection is emptied and nothing is reported; when
  it throws, the selection is kept and \<^verbatim>\<open>Failed to load scene\<close> is reported. The
  continuation does the same whichever id its call had requested.
\<close>

theorem loadScene_last_response_wins:
  assumes "success dataA"
  shows "currentScene (loadScene_resume d a (Resolved dataA)
            (loadScene_resume d1 b rB (loadScene b (loadScene a st)))) = scene dataA
     \<and> selectedObjects (loadScene_resume d a (Resolved dataA)
            (loadScene_resume d1 b rB (loadScene b (loadScene a st)))) =
         (if updateSceneDisplay d (scene dataA) = Thrown
          then selectedObjects (loadScene_resume d1 b rB (loadScene b (loadScene a st)))
          else [])
     \<and> notifications (loadScene_resume d a (Resolved dataA)
            (loadScene_resume d1 b rB (loadScene b (loadScene a st)))) =
         notifications (loadScene_resume d1 b rB (loadScene b (loadScene a st))) @
         (if updateSceneDisplay d (scene dataA) = Thrown
          then [(''Failed to load scene'', ErrorType)] else [])
     \<and> loadScene_resume d a (Resolved dataA) st1 = loadScene_resume d b (Resolved dataA) st1"
  using assms by (simp add: loadScene_resume_success ui_defs)

text \<open>
  The theorem at the ids \<^verbatim>\<open>A\<close> and \<^verbatim>\<open>B\<close>, from a fresh session: once with
  two scenes that can be drawn, once with a late body for \<^verbatim>\<open>A\<close> that lacks the
  arrays.
\<close>

theorem loadScene_last_response_wins_witness:
  "success \<lparr>ok = True, success = True, error = None, scene = Some (empty_scene ''A''),
      preview_url = None\<rparr>
   \<and> currentScene (loadScene_resume scene_page ''A'' (scene_reply (empty_scene ''A''))
        (loadScene_resume scene_page ''B'' (scene_reply (empty_scene ''B''))
          (loadScene ''B'' (loadScene ''A'' new_session)))) = Some (empty_scene ''A'')
   \<and> selectedObjects (loadScene_resume scene_page ''A'' (scene_reply (empty_scene ''A''))
        (loadScene_resume scene_page ''B'' (scene_reply (empty_scene ''B''))
          (loadScene ''B'' (loadScene ''A'' new_session)))) = []
   \<and> success \<lparr>ok = True, success = True, error = None, scene = Some (bare_scene ''A''),
      preview_url = None\<rparr>
   \<and> currentScene (loadScene_resume scene_page ''A'' (scene_reply (bare_scene ''A''))
        (loadScene_resume scene_page ''B'' (scene_reply (empty_scene ''B''))
          (loadScene ''B'' (loadScene ''A'' new_session)))) = Some (bare_scene ''A'')
   \<and> notifications (loadScene_resume scene_page ''A'' (scene_reply (bare_scene ''A''))
        (loadScene_resume scene_page ''B'' (scene_reply (empty_scene ''B''))
          (loadScene ''B'' (loadScene ''A'' new_session))))
       = [(''Failed to load scene'', ErrorType)]"
  using loadScene_last_response_wins
    [of "\<lparr>ok = True, success = True, error = None, scene = Some (empty_scene ''A''),
          preview_url = None\<rparr>"
        scene_page "''A''" scene_page "''B''" "scene_reply (empty_scene ''B'')" new_session
        new_session]
    loadScene_last_response_wins
    [of "\<lparr>ok = True, success = True, error = None, scene = Some (bare_scene ''A''),
          preview_url = None\<rparr>"
        scene_page "''A''" scene_page "''B''" "scene_reply (empty_scene ''B'')" new_session
        new_session]
  by (simp add: load_defs sample_defs ui_defs)

text \<open>
  C1 as stated fails: \<^verbatim>\<open>A\<close> is requested, then \<^verbatim>\<open>B\<close>; the response for
  \<^verbatim>\<open>B\<close> arrives and establishes scene \<^verbatim>\<open>B\<close>; the late response for \<^verbatim>\<open>A\<close>
  replaces it.
\<close>

theorem stale_load_response_overwrites:
  "currentScene (loadScene_resume scene_page ''B'' (scene_reply (empty_scene ''B''))
       (loadScene ''B'' (loadScene ''A'' new_session))) = Some (empty_scene ''B'')
   \<and> currentScene (loadScene_resume scene_page ''A'' (scene_reply (empty_scene ''A''))
       (loadScene_resume scene_page ''B'' (scene_reply (empty_scene ''B''))
         (loadScene ''B'' (loadScene ''A'' new_session)))) = Some (empty_scene ''A'')
   \<and> empty_scene ''A'' \<noteq> empty_scene ''B''"
  by (simp add: load_defs sample_defs ui_defs)

text \<open>
  The branch in which the redraw throws, run: with \<^verbatim>\<open>o1\<close> selected in the desk
  scene, a successful body without the arrays replaces the scene, keeps the selection
  and reports the failure.
\<close>

lemma loadScene_redraw_throws_example:
  "currentScene (loadScene_resume scene_page ''A'' (scene_reply (bare_scene ''A''))
      (loadScene ''A'' (toggleObjectSelection ''o1'' True (loaded desk_scene))))
     = Some (bare_scene ''A'')
   \<and> selectedObjects (loadScene_resume scene_page ''A'' (scene_reply (bare_scene ''A''))
      (loadScene ''A'' (toggleObjectSelection ''o1'' True (loaded desk_scene)))) = [''o1'']
   \<and> notifications (loadScene_resume scene_page ''A'' (scene_reply (bare_scene ''A''))
      (loadScene ''A'' (toggleObjectSelection ''o1'' True (loaded desk_scene))))
     = [(''Failed to load scene'', ErrorType)]"
  by (simp add: load_defs toggleObjectSelection_def set_add_def sample_defs ui_defs)

section \<open>The selection when the scene changes\<close>

text \<open>
  C2 at the unload: with the three-object scene loaded and \<^verbatim>\<open>o1\<close> selected,
  \<^verbatim>\<open>loadScene('')\<close> sets \<^verbatim>\<open>currentScene\<close> to \<^verbatim>\<open>null\<close> and leaves \<^verbatim>\<open>o1\<close>
  in the selection. The branch of a successful load calls
  \<^verbatim>\<open>selectedObjects.clear()\<close>; the unload branch returns without it.
\<close>

theorem loadScene_unload_keeps_selection:
  "selectedObjects (toggleObjectSelection ''o1'' True (loaded desk_scene)) = [''o1'']
   \<and> selectedObjects (loadScene [] (toggleObjectSelection ''o1'' True (loaded desk_scene)))
        = [''o1'']
   \<and> currentScene (loadScene [] (toggleObjectSelection ''o1'' True (loaded desk_scene)))
        = None"
  by (simp add: load_defs toggleObjectSelection_def set_add_def sample_defs ui_defs)

section \<open>Toggling the selection\<close>

text \<open>
  C3, as the code has it. After any sequence of \<^verbatim>\<open>toggleObjectSelection\<close> calls, in
  any session (a scene loaded or not), the selection is the set of ids whose last call
  had \<^verbatim>\<open>selected\<close> true, together with the ids selected before that no call named.
  The ids are not compared with the objects of the current scene, and the current scene
  is neither read nor changed.
\<close>

theorem toggles_selection:
  "set (selectedObjects (toggles calls st)) =
     {i. last_toggle calls i = Some True}
     \<union> {i \<in> set (selectedObjects st). last_toggle calls i = None}
   \<and> currentScene (toggles calls st) = currentScene st"
proof (induction calls rule: rev_induct)
  case Nil
  show ?case by (simp add: toggles_def last_toggle_def)
next
  case (snoc c calls)
  then show ?case
    by (auto simp: toggles_snoc last_toggle_snoc toggleObjectSelection_def
        set_set_add set_set_delete)
qed

text \<open>
  C3 as stated fails twice: with no scene loaded a toggle changes the session, and with
  the scene of \<^verbatim>\<open>o1\<close>, \<^verbatim>\<open>o2\<close>, \<^verbatim>\<open>o3\<close> loaded the id \<^verbatim>\<open>zz\<close> of no
  object enters the selection.
\<close>

theorem toggle_not_restricted_to_scene:
  "currentScene new_session = None
   \<and> selectedObjects (toggleObjectSelection ''x'' True new_session) = [''x'']
   \<and> toggleObjectSelection ''x'' True new_session \<noteq> new_session
   \<and> scene_object_ids desk_scene = [''o1'', ''o2'', ''o3'']
   \<and> ''zz'' \<notin> set (scene_object_ids desk_scene)
   \<and> currentScene (loaded desk_scene) = Some desk_scene
   \<and> selectedObjects (toggleObjectSelection ''zz'' True (loaded desk_scene)) = [''zz'']"
  by (simp add: toggleObjectSelection_def set_add_def scene_object_ids_def load_defs
      sample_defs ui_defs)

section \<open>A load that fails\<close>

text \<open>
  C4, as the code has it. When the repository call of a load fails (the fetch throws or
  the body carries \<^verbatim>\<open>success: false\<close>), one error is reported: the server's message
  when it sent a non-empty one, \<^verbatim>\<open>Failed to load scene\<close> otherwise. The current
  scene and the selection stay what they were: a scene loaded before stays loaded.
\<close>

theorem loadScene_failure_keeps_scene:
  assumes "failed r"
  shows "currentScene (loadScene_resume d i r st) = currentScene st
     \<and> selectedObjects (loadScene_resume d i r st) = selectedObjects st
     \<and> network (loadScene_resume d i r st) = network st
     \<and> notifications (loadScene_resume d i r st) = notifications st @
          [(case r of Rejected \<Rightarrow> ''Failed to load scene''
              | Resolved data \<Rightarrow> js_or (error data) ''Failed to load scene'', ErrorType)]"
  using assms
  by (cases r) (simp_all add: failed_def loadScene_resume_def loadScene_try_def ui_defs)

text \<open>The theorem at a load of \<^verbatim>\<open>B\<close> that the server refuses while \<^verbatim>\<open>A\<close> is loaded.\<close>

theorem loadScene_failure_keeps_scene_witness:
  "failed (error_reply ''Scene not found'')
   \<and> currentScene (loadScene_resume scene_page ''B'' (error_reply ''Scene not found'')
        (loadScene ''B'' (loaded (empty_scene ''A'')))) = Some (empty_scene ''A'')
   \<and> notifications (loadScene_resume scene_page ''B'' (error_reply ''Scene not found'')
        (loadScene ''B'' (loaded (empty_scene ''A'')))) = [(''Scene not found'', ErrorType)]"
proof -
  have f: "failed (error_reply ''Scene not found'')"
    by (simp add: failed_def error_reply_def)
  show ?thesis
    using f loadScene_failure_keeps_scene
      [OF f, of scene_page "''B''" "loadScene ''B'' (loaded (empty_scene ''A''))"]
    by (simp add: load_defs js_or_def sample_defs ui_defs)
qed

text \<open>
  C4 as stated fails: with scene \<^verbatim>\<open>A\<close> loaded, a load of \<^verbatim>\<open>B\<close> whose fetch throws,
  or that the server refuses, leaves \<^verbatim>\<open>currentScene\<close> at scene \<^verbatim>\<open>A\<close>, not at
  \<^verbatim>\<open>null\<close>.
\<close>

theorem load_failure_not_unloaded:
  "currentScene (loadScene_resume scene_page ''B'' Rejected
       (loadScene ''B'' (loaded (empty_scene ''A'')))) = Some (empty_scene ''A'')
   \<and> currentScene (loadScene_resume scene_page ''B'' (error_reply ''Scene not found'')
       (loadScene ''B'' (loaded (empty_scene ''A'')))) = Some (empty_scene ''A'')"
  by (simp add: load_defs sample_defs ui_defs)

section \<open>Selective export with an empty selection\<close>

text \<open>
  C5, as the code has it. \<^verbatim>\<open>showExportModal('selective')\<close>, called while the
  selection is empty, issues no request, opens no modal and reports one error:
  \<^verbatim>\<open>No objects selected for selective export\<close> when a scene is loaded,
  \<^verbatim>\<open>No scene selected\<close> when none is. The check is in \<^verbatim>\<open>showExportModal\<close>
  only; \<^verbatim>\<open>executeExport\<close> has none.
\<close>

theorem showExportModal_selective_empty:
  assumes "selectedObjects st = []"
  shows "network (showExportModal ''selective'' st) = network st
     \<and> modal (showExportModal ''selective'' st) = modal st
     \<and> notifications (showExportModal ''selective'' st) = notifications st @
          [(if currentScene st = None then ''No scene selected''
            else ''No objects selected for selective export'', ErrorType)]"
  using assms by (simp add: showExportModal_def ui_defs split: option.splits)

text \<open>The theorem right after the three-object scene has been loaded.\<close>

theorem showExportModal_selective_empty_witness:
  "selectedObjects (loaded desk_scene) = []
   \<and> network (showExportModal ''selective'' (loaded desk_scene)) = [GET_scene ''s1'']
   \<and> notifications (showExportModal ''selective'' (loaded desk_scene))
        = [(''No objects selected for selective export'', ErrorType)]"
proof -
  have e: "selectedObjects (loaded desk_scene) = []"
    by (simp add: load_defs sample_defs ui_defs)
  show ?thesis
    using e showExportModal_selective_empty [OF e]
    by (simp add: load_defs sample_defs ui_defs)
qed

text \<open>
  C5 as stated fails: with a scene loaded and nothing selected,
  \<^verbatim>\<open>executeExport('selective')\<close> posts an export request with an empty
  \<^verbatim>\<open>object_ids\<close> and reports nothing; and with no scene loaded the message of
  \<^verbatim>\<open>showExportModal('selective')\<close> is the one about the scene, not the one about
  the selection.
\<close>

theorem executeExport_selective_empty_issues_request:
  "selectedObjects (loaded desk_scene) = []
   \<and> network (executeExport bare_page ''selective'' (loaded desk_scene)) =
       [GET_scene ''s1'',
        POST_export ''s1'' \<lparr>export_type = ''selective'', format = ''obj'', filename = None,
          object_id = None, object_ids = Some [], combined_file = Some True\<rparr>]
   \<and> notifications (executeExport bare_page ''selective'' (loaded desk_scene)) = []
   \<and> selectedObjects new_session = []
   \<and> notifications (showExportModal ''selective'' new_session)
        = [(''No scene selected'', ErrorType)]"
  by (simp add: executeExport_def showExportModal_def js_or_def truthy_def load_defs
      sample_defs ui_defs)

section \<open>Creating a scene without a name\<close>

text \<open>
  C6, as the code has it. The check of the name is in \<^verbatim>\<open>submitCreateScene\<close>: when
  the name field is missing or its value trims to the empty string, the method reports
  \<^verbatim>\<open>Scene name is required\<close>, leaves the modal open and issues no request.
  \<^verbatim>\<open>createScene\<close> itself checks nothing.
\<close>

theorem submitCreateScene_blank_name:
  assumes "scene_name_input d = None \<or> (\<exists>v. scene_name_input d = Some v \<and> trim v = [])"
  shows "network (submitCreateScene d st) = network st
     \<and> currentScene (submitCreateScene d st) = currentScene st
     \<and> modal (submitCreateScene d st) = modal st
     \<and> notifications (submitCreateScene d st)
          = notifications st @ [(''Scene name is required'', ErrorType)]"
  using assms by (auto simp: submitCreateScene_def ui_defs)

text \<open>The theorem at a name field holding two spaces.\<close>

theorem submitCreateScene_blank_name_witness:
  "trim ''  '' = []
   \<and> network (submitCreateScene (bare_page\<lparr>scene_name_input := Some ''  ''\<rparr>) new_session) = []
   \<and> notifications (submitCreateScene (bare_page\<lparr>scene_name_input := Some ''  ''\<rparr>) new_session)
        = [(''Scene name is required'', ErrorType)]"
proof -
  have t: "trim ''  '' = []"
    by (simp add: trim_def is_space_def)
  have h: "scene_name_input (bare_page\<lparr>scene_name_input := Some ''  ''\<rparr>) = None
       \<or> (\<exists>v. scene_name_input (bare_page\<lparr>scene_name_input := Some ''  ''\<rparr>) = Some v
              \<and> trim v = [])"
    using t by simp
  show ?thesis
    using t submitCreateScene_blank_name [OF h, of new_session]
    by (simp add: new_session_def)
qed

text \<open>
  C6 as stated fails: \<^verbatim>\<open>createScene('', '')\<close> posts the scene and reports nothing.
\<close>

theorem createScene_empty_name_issues_request:
  "trim [] = []
   \<and> network (createScene [] (Some []) new_session) = [POST_scenes [] (Some [])]
   \<and> notifications (createScene [] (Some []) new_session) = []"
  by (simp add: trim_def createScene_def sample_defs ui_defs)

section \<open>Scene previews\<close>

text \<open>
  C7 on the code: two preview requests in a row, each answered with the same
  \<^verbatim>\<open>preview_url\<close> \<^verbatim>\<open>u\<close>, write \<^verbatim>\<open>u\<close> itself into the image twice. Nothing
  is appended to the URL, unlike in the previews of single models, which append
  \<^verbatim>\<open>Date.now()\<close>.
\<close>

theorem scene_preview_url_not_cache_busted:
  "previews
     (generateScenePreview_resume (d\<lparr>has_scene_preview_container := True\<rparr>)
        (Resolved (data\<lparr>success := True, preview_url := Some u\<rparr>))
        (generateScenePreview
           (generateScenePreview_resume (d\<lparr>has_scene_preview_container := True\<rparr>)
              (Resolved (data\<lparr>success := True, preview_url := Some u\<rparr>))
              (generateScenePreview st))))
   = previews st @ [u, u]"
  by (simp add: generateScenePreview_resume_def generateScenePreview_def
      displayScenePreview_def ui_defs split: option.splits)

section \<open>Operations that need a scene\<close>




section \<open>The object ids of a selective export\<close>

text \<open>
  C9. The scene with the objects \<^verbatim>\<open>o1\<close>, \<^verbatim>\<open>o2\<close>, \<^verbatim>\<open>o3\<close> is loaded,
  \<^verbatim>\<open>o1\<close> and then \<^verbatim>\<open>o3\<close> are toggled in, the selective export dialog is opened
  and the export is run in the format \<^verbatim>\<open>stl\<close>: the request posted for the scene
  carries \<^verbatim>\<open>object_ids = ['o1', 'o3']\<close>, whatever else the page holds.
\<close>

theorem selective_export_object_ids:
  "selectedObjects
     (toggleObjectSelection ''o3'' True (toggleObjectSelection ''o1'' True (loaded desk_scene)))
     = [''o1'', ''o3'']
   \<and> modal (showExportModal ''selective''
        (toggleObjectSelection ''o3'' True (toggleObjectSelection ''o1'' True (loaded desk_scene))))
     = Some ''Export Scene''
   \<and> network (executeExport (d\<lparr>export_format_input := Some ''stl''\<rparr>) ''selective''
        (showExportModal ''selective''
          (toggleObjectSelection ''o3'' True
            (toggleObjectSelection ''o1'' True (loaded desk_scene)))))
     = [GET_scene ''s1'',
        POST_export ''s1'' \<lparr>export_type = ''selective'', format = ''stl'',
          filename = (if js_or (export_filename_input d) [] = [] then None
                      else Some (js_or (export_filename_input d) [])),
          object_id = None, object_ids = Some [''o1'', ''o3''],
          combined_file = Some (combined_file_checked d \<noteq> Some False)\<rparr>]"
  by (simp add: executeExport_def showExportModal_def toggleObjectSelection_def set_add_def
      Let_def js_or_def load_defs sample_defs ui_defs)

section \<open>The boundary of createScene\<close>

text \<open>
  C10, as the code has it. The continuation of \<^verbatim>\<open>createScene\<close> never throws. When
  the call fails (the fetch throws or the body carries \<^verbatim>\<open>success: false\<close>) it
  reports one error and returns \<^verbatim>\<open>null\<close>. It returns an id only for a successful
  body, and then the \<^verbatim>\<open>scene_id\<close> of the scene in it. \<^verbatim>\<open>submitCreateScene\<close>
  then loads the new scene exactly when the returned id is a non-empty string and the
  page has the \<^verbatim>\<open>#scene-select\<close> dropdown.
\<close>

theorem createScene_boundary:
  "fst (createScene_resume name r st) \<noteq> Thrown
   \<and> (failed r \<longrightarrow>
        fst (createScene_resume name r st) = Returned None
        \<and> local_error_only st (snd (createScene_resume name r st)))
   \<and> (fst (createScene_resume name r st) = Returned (Some i) \<longrightarrow>
        (\<exists>data sc. r = Resolved data \<and> success data \<and> scene data = Some sc
           \<and> scene_id sc = i))
   \<and> network (submitCreateScene_resume d name r st) =
        network (snd (createScene_resume name r st)) @
        (case fst (createScene_resume name r st) of
           Returned (Some j) \<Rightarrow> if j \<noteq> [] \<and> has_scene_select d then [GET_scene j] else []
         | _ \<Rightarrow> [])"
  by (cases r)
     (auto simp: createScene_resume_def createScene_try_def submitCreateScene_resume_def
        failed_def local_error_only_def loadScene_def loadScenesList_def Let_def ui_defs
        split: option.splits)

text \<open>
  The theorem at a fetch that throws, and at a successful creation on a page with the
  dropdown.
\<close>

theorem createScene_boundary_witness:
  "failed Rejected
   \<and> fst (createScene_resume ''Desk Setup'' Rejected new_session) = Returned None
   \<and> notifications (snd (createScene_resume ''Desk Setup'' Rejected new_session))
        = [(''Failed to create scene'', ErrorType)]
   \<and> fst (createScene_resume ''Desk Setup'' (scene_reply (empty_scene ''s1'')) new_session)
        = Returned (Some ''s1'')
   \<and> network (submitCreateScene_resume scene_page ''Desk Setup''
        (scene_reply (empty_scene ''s1'')) new_session) = [GET_scenes, GET_scene ''s1'']"
proof -
  have f: "failed Rejected"
    by (simp add: failed_def)
  have s: "fst (createScene_resume ''Desk Setup'' (scene_reply (empty_scene ''s1'')) new_session)
        = Returned (Some ''s1'')"
    by (simp add: createScene_resume_def createScene_try_def Let_def sample_defs)
  show ?thesis
    using f s
      createScene_boundary [of "''Desk Setup''" Rejected new_session "''s1''" scene_page]
      createScene_boundary [of "''Desk Setup''" "scene_reply (empty_scene ''s1'')" new_session
        "''s1''" scene_page]
    by (simp add: createScene_resume_def createScene_try_def local_error_only_def
        loadScenesList_def Let_def sample_defs ui_defs)
qed

text \<open>
  C10 as stated fails: on a page without the dropdown, \<^verbatim>\<open>createScene\<close> returns the
  id \<^verbatim>\<open>s1\<close> and \<^verbatim>\<open>submitCreateScene\<close> requests the list of scenes but never the
  scene; and an empty id, which is not \<^verbatim>\<open>null\<close>, is not loaded on any page.
\<close>

theorem createScene_id_without_dropdown_not_loaded:
  "fst (createScene_resume ''Desk Setup'' (scene_reply (empty_scene ''s1''))
          (submitCreateScene (bare_page\<lparr>scene_name_input := Some ''Desk Setup''\<rparr>) new_session))
     = Returned (Some ''s1'')
   \<and> network (submitCreateScene_resume (bare_page\<lparr>scene_name_input := Some ''Desk Setup''\<rparr>)
        ''Desk Setup'' (scene_reply (empty_scene ''s1''))
        (submitCreateScene (bare_page\<lparr>scene_name_input := Some ''Desk Setup''\<rparr>) new_session))
     = [POST_scenes ''Desk Setup'' None, GET_scenes]
   \<and> fst (createScene_resume ''Desk Setup'' (scene_reply (empty_scene [])) new_session)
     = Returned (Some [])
   \<and> network (submitCreateScene_resume scene_page ''Desk Setup''
        (scene_reply (empty_scene [])) new_session) = [GET_scenes]"
  by (simp add: createScene_resume_def createScene_try_def submitCreateScene_resume_def
      submitCreateScene_def createScene_def trim_def is_space_def loadScenesList_def Let_def
      sample_defs ui_defs)

end
